theory Spec2Isabelle
  imports Complex_Main "HOL-Library.Monad_Syntax"
begin

section \<open>JavaScript numbers\<close>

text \<open>
  The TypeScript sources compute on \<^verbatim>\<open>number\<close>. A number is modelled as a finite value,
  one of the two infinities, or NaN. Finite values are exact reals: binary64 rounding and
  overflow are not modelled, and the two zeros are one value. The sources divide only by a
  value they have tested to be \<^verbatim>\<open>> 0\<close> or by the literal 12, so the sign of a zero
  divisor is never observed.
\<close>

datatype jsnum = Fin real | NaN | PInf | NInf

fun js_add :: "jsnum \<Rightarrow> jsnum \<Rightarrow> jsnum" where
  "js_add NaN _ = NaN"
| "js_add _ NaN = NaN"
| "js_add (Fin x) (Fin y) = Fin (x + y)"
| "js_add PInf NInf = NaN"
| "js_add NInf PInf = NaN"
| "js_add PInf _ = PInf"
| "js_add _ PInf = PInf"
| "js_add NInf _ = NInf"
| "js_add _ NInf = NInf"

fun js_sub :: "jsnum \<Rightarrow> jsnum \<Rightarrow> jsnum" where
  "js_sub NaN _ = NaN"
| "js_sub _ NaN = NaN"
| "js_sub (Fin x) (Fin y) = Fin (x - y)"
| "js_sub PInf PInf = NaN"
| "js_sub NInf NInf = NaN"
| "js_sub PInf _ = PInf"
| "js_sub _ NInf = PInf"
| "js_sub NInf _ = NInf"
| "js_sub _ PInf = NInf"

fun js_mul :: "jsnum \<Rightarrow> jsnum \<Rightarrow> jsnum" where
  "js_mul NaN _ = NaN"
| "js_mul _ NaN = NaN"
| "js_mul (Fin x) (Fin y) = Fin (x * y)"
| "js_mul PInf (Fin y) = (if y = 0 then NaN else if 0 < y then PInf else NInf)"
| "js_mul NInf (Fin y) = (if y = 0 then NaN else if 0 < y then NInf else PInf)"
| "js_mul (Fin x) PInf = (if x = 0 then NaN else if 0 < x then PInf else NInf)"
| "js_mul (Fin x) NInf = (if x = 0 then NaN else if 0 < x then NInf else PInf)"
| "js_mul PInf PInf = PInf"
| "js_mul NInf NInf = PInf"
| "js_mul PInf NInf = NInf"
| "js_mul NInf PInf = NInf"

fun js_div :: "jsnum \<Rightarrow> jsnum \<Rightarrow> jsnum" where
  "js_div NaN _ = NaN"
| "js_div _ NaN = NaN"
| "js_div (Fin x) (Fin y) =
     (if y = 0 then (if x = 0 then NaN else if 0 < x then PInf else NInf) else Fin (x / y))"
| "js_div (Fin x) PInf = Fin 0"
| "js_div (Fin x) NInf = Fin 0"
| "js_div PInf (Fin y) = (if y < 0 then NInf else PInf)"
| "js_div NInf (Fin y) = (if y < 0 then PInf else NInf)"
| "js_div PInf PInf = NaN"
| "js_div PInf NInf = NaN"
| "js_div NInf PInf = NaN"
| "js_div NInf NInf = NaN"

text \<open>\<^verbatim>\<open>a > b\<close> on numbers: false as soon as one side is NaN.\<close>

fun js_gt :: "jsnum \<Rightarrow> jsnum \<Rightarrow> bool" where
  "js_gt NaN _ = False"
| "js_gt _ NaN = False"
| "js_gt (Fin x) (Fin y) = (y < x)"
| "js_gt PInf PInf = False"
| "js_gt PInf _ = True"
| "js_gt NInf _ = False"
| "js_gt (Fin x) PInf = False"
| "js_gt (Fin x) NInf = True"

text \<open>\<^verbatim>\<open>Math.floor\<close>.\<close>

fun js_floor :: "jsnum \<Rightarrow> jsnum" where
  "js_floor (Fin x) = Fin (of_int \<lfloor>x\<rfloor>)"
| "js_floor n = n"

text \<open>Truthiness of a number: every number but 0 and NaN.\<close>

definition num_truthy :: "jsnum \<Rightarrow> bool" where
  "num_truthy n = (n \<noteq> Fin 0 \<and> n \<noteq> NaN)"

section \<open>JavaScript values\<close>

text \<open>
  The report bodies returned by \<^verbatim>\<open>response.json()\<close> are typed \<^verbatim>\<open>any\<close>; the extractors
  walk them with property reads, optional chaining and \<^verbatim>\<open>for ... of\<close>. A value is a JSON
  value or \<^verbatim>\<open>undefined\<close> (the result of reading an absent property). An object is the
  list of its own properties, each name listed once.
\<close>

datatype jsval =
    JUndefined
  | JNull
  | JBool bool
  | JNum jsnum
  | JStr string
  | JArr "jsval list"
  | JObj "(string \<times> jsval) list"

datatype error = TypeError | Error string

text \<open>\<^verbatim>\<open>undefined\<close> and \<^verbatim>\<open>null\<close>: the values whose properties cannot be read.\<close>

definition nullish :: "jsval \<Rightarrow> bool" where
  "nullish v = (v = JUndefined \<or> v = JNull)"

fun truthy :: "jsval \<Rightarrow> bool" where
  "truthy JUndefined = False"
| "truthy JNull = False"
| "truthy (JBool b) = b"
| "truthy (JNum n) = num_truthy n"
| "truthy (JStr s) = (s \<noteq> [])"
| "truthy (JArr xs) = True"
| "truthy (JObj kvs) = True"

text \<open>\<^verbatim>\<open>a || b\<close>.\<close>

definition or_else :: "jsval \<Rightarrow> jsval \<Rightarrow> jsval" where
  "or_else a b = (if truthy a then a else b)"

text \<open>
  Reading a property of a value that is neither \<^verbatim>\<open>undefined\<close> nor \<^verbatim>\<open>null\<close>. The sources
  read the names Rows, Row, ColData, Header, value, Reports, Title, Cells, Value, Accounts,
  BankAccountBalance and length; of these only \<^verbatim>\<open>length\<close> is a member of a built-in
  prototype (arrays and strings), so every other name is found among the own properties of
  an object or is \<^verbatim>\<open>undefined\<close>. Strings are lists of code units below 256.
\<close>

fun prop_of :: "jsval \<Rightarrow> string \<Rightarrow> jsval" where
  "prop_of (JObj kvs) p = (case map_of kvs p of None \<Rightarrow> JUndefined | Some v \<Rightarrow> v)"
| "prop_of (JArr xs) p = (if p = ''length'' then JNum (Fin (real (length xs))) else JUndefined)"
| "prop_of (JStr s) p = (if p = ''length'' then JNum (Fin (real (length s))) else JUndefined)"
| "prop_of _ p = JUndefined"

text \<open>The decimal name of an index, as in \<^verbatim>\<open>o[1]\<close> on an object, which reads \<^verbatim>\<open>o["1"]\<close>.\<close>

fun dec :: "nat \<Rightarrow> string" where
  "dec n = (if n < 10 then [''0123456789'' ! n]
            else dec (n div 10) @ [''0123456789'' ! (n mod 10)])"

fun elem_of :: "jsval \<Rightarrow> nat \<Rightarrow> jsval" where
  "elem_of (JArr xs) i = (if i < length xs then xs ! i else JUndefined)"
| "elem_of (JStr s) i = (if i < length s then JStr [s ! i] else JUndefined)"
| "elem_of (JObj kvs) i = (case map_of kvs (dec i) of None \<Rightarrow> JUndefined | Some v \<Rightarrow> v)"
| "elem_of _ i = JUndefined"

text \<open>
  \<^verbatim>\<open>v.p\<close> and \<^verbatim>\<open>v[i]\<close> throw a TypeError on \<^verbatim>\<open>undefined\<close> and \<^verbatim>\<open>null\<close>: that is
  \<open>None\<close>. \<^verbatim>\<open>v?.p\<close> and \<^verbatim>\<open>v?.[i]\<close> give \<^verbatim>\<open>undefined\<close> there instead.
\<close>

definition get_prop :: "jsval \<Rightarrow> string \<Rightarrow> jsval option" where
  "get_prop v p = (if nullish v then None else Some (prop_of v p))"

definition get_idx :: "jsval \<Rightarrow> nat \<Rightarrow> jsval option" where
  "get_idx v i = (if nullish v then None else Some (elem_of v i))"

definition opt_prop :: "jsval \<Rightarrow> string \<Rightarrow> jsval" where
  "opt_prop v p = (if nullish v then JUndefined else prop_of v p)"

definition opt_idx :: "jsval \<Rightarrow> nat \<Rightarrow> jsval" where
  "opt_idx v i = (if nullish v then JUndefined else elem_of v i)"

text \<open>
  \<^verbatim>\<open>for (const x of v)\<close>: an array yields its elements, a string its characters, and
  every other value is not iterable (TypeError).
\<close>

fun iterate :: "jsval \<Rightarrow> jsval list option" where
  "iterate (JArr xs) = Some xs"
| "iterate (JStr s) = Some (map (\<lambda>c. JStr [c]) s)"
| "iterate _ = None"

subsection \<open>Numeric strings\<close>

text \<open>
  The grammar \<^verbatim>\<open>StrDecimalLiteral\<close> of the language standard, read by \<^verbatim>\<open>parseFloat\<close> (longest
  prefix after leading white space) and by the conversion of a string to a number (the
  whole trimmed string). White space is taken among the code units below 256.
\<close>

definition is_ws :: "char \<Rightarrow> bool" where
  "is_ws c = ((of_char c :: nat) \<in> {9, 10, 11, 12, 13, 32, 160})"

definition is_digit :: "char \<Rightarrow> bool" where
  "is_digit c = (c \<in> set ''0123456789'')"

definition digit_val :: "char \<Rightarrow> nat" where
  "digit_val c = of_char c - 48"

definition digits_val :: "string \<Rightarrow> nat" where
  "digits_val ds = foldl (\<lambda>a c. 10 * a + digit_val c) 0 ds"

definition pow10 :: "int \<Rightarrow> real" where
  "pow10 k = (if 0 \<le> k then 10 ^ nat k else 1 / 10 ^ nat (- k))"

fun js_neg :: "jsnum \<Rightarrow> jsnum" where
  "js_neg (Fin x) = Fin (- x)"
| "js_neg PInf = NInf"
| "js_neg NInf = PInf"
| "js_neg NaN = NaN"

text \<open>
  The longest \<^verbatim>\<open>ExponentPart\<close> at the head of the input: its value and the rest. Without
  one (no \<^verbatim>\<open>e\<close>, or no digit after it) the exponent is 0 and nothing is consumed.
\<close>

definition exponent_part :: "string \<Rightarrow> int \<times> string" where
  "exponent_part s =
     (case s of
        [] \<Rightarrow> (0, s)
      | e # r \<Rightarrow>
          if e \<noteq> CHR ''e'' \<and> e \<noteq> CHR ''E'' then (0, s)
          else
            let (sg, ds) = (case r of
                              [] \<Rightarrow> (1, r)
                            | c # r' \<Rightarrow> if c = CHR ''-'' then (- 1, r')
                                         else if c = CHR ''+'' then (1, r') else (1, r))
            in if takeWhile is_digit ds = [] then (0, s)
               else (sg * int (digits_val (takeWhile is_digit ds)), dropWhile is_digit ds))"

text \<open>
  The longest \<^verbatim>\<open>StrUnsignedDecimalLiteral\<close> at the head of the input (\<^verbatim>\<open>Infinity\<close>, or
  digits with an optional fraction and exponent, at least one digit before the exponent),
  with the rest of the input; \<open>None\<close> when there is none.
\<close>

definition unsigned_decimal :: "string \<Rightarrow> (jsnum \<times> string) option" where
  "unsigned_decimal s =
     (if take 8 s = ''Infinity'' then Some (PInf, drop 8 s)
      else
        let ip = takeWhile is_digit s;
            r1 = dropWhile is_digit s;
            has_dot = (case r1 of [] \<Rightarrow> False | c # _ \<Rightarrow> c = CHR ''.'');
            fp = (if has_dot then takeWhile is_digit (tl r1) else []);
            r2 = (if has_dot then dropWhile is_digit (tl r1) else r1)
        in if ip = [] \<and> fp = [] then None
           else
             let (ex, r3) = exponent_part r2
             in Some (Fin (real (digits_val (ip @ fp)) * pow10 (ex - int (length fp))), r3))"

definition str_decimal :: "string \<Rightarrow> (jsnum \<times> string) option" where
  "str_decimal s =
     (case s of
        [] \<Rightarrow> None
      | c # r \<Rightarrow>
          if c = CHR ''+'' then unsigned_decimal r
          else if c = CHR ''-'' then map_option (\<lambda>(v, rest). (js_neg v, rest)) (unsigned_decimal r)
          else unsigned_decimal s)"

text \<open>\<^verbatim>\<open>parseFloat\<close> of a string.\<close>

definition parse_float_str :: "string \<Rightarrow> jsnum" where
  "parse_float_str s =
     (case str_decimal (dropWhile is_ws s) of None \<Rightarrow> NaN | Some (v, _) \<Rightarrow> v)"

text \<open>
  The conversion of a string to a number (\<^verbatim>\<open>StringToNumber\<close>), needed where the sources
  compare a value with \<^verbatim>\<open>> 1\<close>: the trimmed string is empty (0), a decimal literal, or a
  literal \<^verbatim>\<open>0x\<close>, \<^verbatim>\<open>0o\<close>, \<^verbatim>\<open>0b\<close>; anything else is NaN.
\<close>

definition based_val :: "string \<Rightarrow> string \<Rightarrow> nat option" where
  "based_val alphabet ds =
     (if ds \<noteq> [] \<and> (\<forall>c \<in> set ds. c \<in> set alphabet)
      then Some (foldl (\<lambda>a c. length alphabet * a + length (takeWhile (\<lambda>d. d \<noteq> c) alphabet)) 0 ds)
      else None)"

definition lower_hex :: "char \<Rightarrow> char" where
  "lower_hex c = (case map_of (zip ''ABCDEF'' ''abcdef'') c of None \<Rightarrow> c | Some d \<Rightarrow> d)"

definition non_decimal :: "string \<Rightarrow> nat option" where
  "non_decimal t =
     (case t of
        z # x # ds \<Rightarrow>
          if z \<noteq> CHR ''0'' then None
          else if x = CHR ''x'' \<or> x = CHR ''X'' then based_val ''0123456789abcdef'' (map lower_hex ds)
          else if x = CHR ''o'' \<or> x = CHR ''O'' then based_val ''01234567'' ds
          else if x = CHR ''b'' \<or> x = CHR ''B'' then based_val ''01'' ds
          else None
      | _ \<Rightarrow> None)"

definition str_to_number :: "string \<Rightarrow> jsnum" where
  "str_to_number s =
     (let t = rev (dropWhile is_ws (rev (dropWhile is_ws s)))
      in if t = [] then Fin 0
         else case non_decimal t of
                Some n \<Rightarrow> Fin (real n)
              | None \<Rightarrow> (case str_decimal t of
                           Some (v, rest) \<Rightarrow> if rest = [] then v else NaN
                         | None \<Rightarrow> NaN))"

subsection \<open>Conversions of values\<close>

text \<open>
  Converting an object to a string calls its \<^verbatim>\<open>toString\<close>. A parsed JSON object with an
  own property of that name holds a value that is not callable, and the conversion throws
  a TypeError; without it the result is \<^verbatim>\<open>[object Object]\<close>. An array joins the
  conversions of its elements with commas (\<^verbatim>\<open>null\<close> and \<^verbatim>\<open>undefined\<close> as empty strings),
  so it throws when an element does.
\<close>

fun tostring_throws :: "jsval \<Rightarrow> bool" where
  "tostring_throws (JObj kvs) = (''toString'' \<in> fst ` set kvs)"
| "tostring_throws (JArr xs) = (\<exists>x \<in> set xs. tostring_throws x)"
| "tostring_throws _ = False"

text \<open>
  \<^verbatim>\<open>parseFloat(v)\<close> converts \<open>v\<close> to a string and reads the longest numeric prefix. A number
  prints as a literal that reads back as itself; \<^verbatim>\<open>true\<close>, \<^verbatim>\<open>null\<close>, \<^verbatim>\<open>undefined\<close> and
  \<^verbatim>\<open>[object Object]\<close> have no numeric prefix; the string of an array starts with the
  string of its first element followed by a comma, which no literal crosses.
\<close>

fun parse_float_head :: "jsval \<Rightarrow> jsnum" where
  "parse_float_head (JStr s) = parse_float_str s"
| "parse_float_head (JNum n) = n"
| "parse_float_head (JArr (x # xs)) = parse_float_head x"
| "parse_float_head _ = NaN"

definition parse_float :: "jsval \<Rightarrow> jsnum option" where
  "parse_float v = (if tostring_throws v then None else Some (parse_float_head v))"

text \<open>
  The conversion of a value to a number (\<^verbatim>\<open>ToNumber\<close>), which the comparison \<^verbatim>\<open>v > 1\<close>
  applies to \<open>v\<close>. An object or array goes through its string. An array of two or more
  elements has a comma in its string and is NaN.
\<close>

fun to_number_total :: "jsval \<Rightarrow> jsnum" where
  "to_number_total JUndefined = NaN"
| "to_number_total JNull = Fin 0"
| "to_number_total (JBool b) = (if b then Fin 1 else Fin 0)"
| "to_number_total (JNum n) = n"
| "to_number_total (JStr s) = str_to_number s"
| "to_number_total (JObj kvs) = NaN"
| "to_number_total (JArr []) = Fin 0"
| "to_number_total (JArr [x]) =
     (case x of JUndefined \<Rightarrow> Fin 0 | JNull \<Rightarrow> Fin 0 | JBool b \<Rightarrow> NaN | _ \<Rightarrow> to_number_total x)"
| "to_number_total (JArr (x # y # zs)) = NaN"

definition to_number :: "jsval \<Rightarrow> jsnum option" where
  "to_number v = (if tostring_throws v then None else Some (to_number_total v))"

text \<open>\<^verbatim>\<open>v > n\<close> for a number \<open>n\<close>.\<close>

definition gt_num :: "jsval \<Rightarrow> jsnum \<Rightarrow> bool option" where
  "gt_num v n = map_option (\<lambda>m. js_gt m n) (to_number v)"

section \<open>The canonical metrics record\<close>

text \<open>
  \<^verbatim>\<open>interface FinancialData\<close> of the two clients; the route hands it to the generator
  as its \<^verbatim>\<open>FinancialMetrics\<close> (the optional fields of that interface are never set).
\<close>

record FinancialData =
  cashBalance :: jsnum
  monthlyRevenue :: jsnum
  monthlyExpenses :: jsnum
  profitLoss :: jsval
  balanceSheet :: jsval

section \<open>Report fetches and \<^verbatim>\<open>Promise.all\<close>\<close>

text \<open>
  What the environment answers to one \<^verbatim>\<open>fetch\<close>: the call rejects, or it resolves to a
  response with its \<^verbatim>\<open>ok\<close> flag, its \<^verbatim>\<open>statusText\<close> and the outcome of
  \<^verbatim>\<open>response.json()\<close>. The URL, the headers and the dates sent are not modelled.
\<close>

datatype http = Rejected error | Response bool string "error + jsval"

text \<open>
  The fetch methods of both clients have one shape: await the fetch, throw
  \<^verbatim>\<open>new Error(`Failed to fetch ...: ${response.statusText}`)\<close> unless \<^verbatim>\<open>response.ok\<close>,
  return \<^verbatim>\<open>response.json()\<close>.
\<close>

definition fetch_report :: "string \<Rightarrow> http \<Rightarrow> error + jsval" where
  "fetch_report what h =
     (case h of
        Rejected e \<Rightarrow> Inl e
      | Response ok statusText body \<Rightarrow>
          if \<not> ok then Inl (Error (''Failed to fetch '' @ what @ '': '' @ statusText)) else body)"

definition getProfitAndLoss :: "http \<Rightarrow> error + jsval" where
  "getProfitAndLoss h = fetch_report ''P&L'' h"

definition getBalanceSheet :: "http \<Rightarrow> error + jsval" where
  "getBalanceSheet h = fetch_report ''balance sheet'' h"

definition getBankAccounts :: "http \<Rightarrow> error + jsval" where
  "getBankAccounts h = fetch_report ''bank accounts'' h"

text \<open>
  \<^verbatim>\<open>Promise.all\<close> resolves to the values in argument order when every promise resolves,
  and rejects with the reason of the promise that rejects first in time. The order in
  which the promises settle is an argument: positions it does not list settle afterwards,
  in argument order.
\<close>

fun first_rejection :: "nat list \<Rightarrow> (error + 'a) list \<Rightarrow> error option" where
  "first_rejection [] ps = None"
| "first_rejection (i # order) ps =
     (if i < length ps
      then (case ps ! i of Inl e \<Rightarrow> Some e | Inr _ \<Rightarrow> first_rejection order ps)
      else first_rejection order ps)"

fun resolved :: "(error + 'a) list \<Rightarrow> 'a list" where
  "resolved [] = []"
| "resolved (Inr v # ps) = v # resolved ps"
| "resolved (Inl e # ps) = resolved ps"

definition promise_all :: "nat list \<Rightarrow> (error + 'a) list \<Rightarrow> error + 'a list" where
  "promise_all order ps =
     (case first_rejection (order @ [0..<length ps]) ps of
        Some e \<Rightarrow> Inl e
      | None \<Rightarrow> Inr (resolved ps))"

section \<open>The QuickBooks client (lib/quickbooks.ts)\<close>

text \<open>
  The condition \<^verbatim>\<open>row.ColData && row.Header?.ColData?.[0]?.value === metricName\<close>;
  \<open>None\<close> when evaluating it throws.
\<close>

definition flat_row_matches :: "jsval \<Rightarrow> string \<Rightarrow> bool option" where
  "flat_row_matches row metricName =
     do {
       cd \<leftarrow> get_prop row ''ColData'';
       if \<not> truthy cd then Some False
       else do {
         h \<leftarrow> get_prop row ''Header'';
         Some (opt_prop (opt_idx (opt_prop h ''ColData'') 0) ''value'' = JStr metricName)
       }
     }"

text \<open>The returned expression \<^verbatim>\<open>parseFloat(row.ColData[1]?.value || '0')\<close>.\<close>

definition numeric_cell :: "jsval \<Rightarrow> jsnum option" where
  "numeric_cell row =
     do {
       cd \<leftarrow> get_prop row ''ColData'';
       c \<leftarrow> get_idx cd 1;
       parse_float (or_else (opt_prop c ''value'') (JStr ''0''))
     }"

text \<open>The \<^verbatim>\<open>for\<close> loop of \<^verbatim>\<open>extractMetric\<close> and the \<^verbatim>\<open>return 0\<close> after it.\<close>

fun extractMetric_loop :: "jsval list \<Rightarrow> string \<Rightarrow> jsnum option" where
  "extractMetric_loop [] metricName = Some (Fin 0)"
| "extractMetric_loop (row # rows) metricName =
     do {
       m \<leftarrow> flat_row_matches row metricName;
       if m then numeric_cell row else extractMetric_loop rows metricName
     }"

text \<open>\<^verbatim>\<open>const rows = report.Rows?.Row || []\<close>, iterated.\<close>

definition report_rows :: "jsval \<Rightarrow> jsval list option" where
  "report_rows report =
     do {
       rs \<leftarrow> get_prop report ''Rows'';
       iterate (or_else (opt_prop rs ''Row'') (JArr []))
     }"

text \<open>The body of the \<^verbatim>\<open>try\<close>, and the function: the \<^verbatim>\<open>catch\<close> returns 0.\<close>

definition extractMetric_try :: "jsval \<Rightarrow> string \<Rightarrow> jsnum option" where
  "extractMetric_try report metricName =
     do {
       rows \<leftarrow> report_rows report;
       extractMetric_loop rows metricName
     }"

definition extractMetric :: "jsval \<Rightarrow> string \<Rightarrow> jsnum" where
  "extractMetric report metricName =
     (case extractMetric_try report metricName of None \<Rightarrow> Fin 0 | Some v \<Rightarrow> v)"

text \<open>
  \<^verbatim>\<open>extractBalanceSheetMetric\<close>. The inner loop returns from the function on a match:
  its result is \<open>Some (Some v)\<close> for \<^verbatim>\<open>return v\<close>, \<open>Some None\<close> when it runs to its end,
  and \<open>None\<close> when it throws.
\<close>

definition nested_row_matches :: "jsval \<Rightarrow> string \<Rightarrow> bool option" where
  "nested_row_matches row metricName =
     do {
       cd \<leftarrow> get_prop row ''ColData'';
       Some (opt_prop (opt_idx cd 0) ''value'' = JStr metricName)
     }"

fun section_rows_loop :: "jsval list \<Rightarrow> string \<Rightarrow> jsnum option option" where
  "section_rows_loop [] metricName = Some None"
| "section_rows_loop (row # rows) metricName =
     do {
       m \<leftarrow> nested_row_matches row metricName;
       if m then do { v \<leftarrow> numeric_cell row; Some (Some v) }
       else section_rows_loop rows metricName
     }"

fun sections_loop :: "jsval list \<Rightarrow> string \<Rightarrow> jsnum option" where
  "sections_loop [] metricName = Some (Fin 0)"
| "sections_loop (section # sections) metricName =
     do {
       rs \<leftarrow> get_prop section ''Rows'';
       if truthy (opt_prop rs ''Row'') then
         do {
           r \<leftarrow> get_prop rs ''Row'';
           rows \<leftarrow> iterate r;
           found \<leftarrow> section_rows_loop rows metricName;
           case found of Some v \<Rightarrow> Some v | None \<Rightarrow> sections_loop sections metricName
         }
       else sections_loop sections metricName
     }"

definition extractBalanceSheetMetric_try :: "jsval \<Rightarrow> string \<Rightarrow> jsnum option" where
  "extractBalanceSheetMetric_try report metricName =
     do {
       rows \<leftarrow> report_rows report;
       sections_loop rows metricName
     }"

definition extractBalanceSheetMetric :: "jsval \<Rightarrow> string \<Rightarrow> jsnum" where
  "extractBalanceSheetMetric report metricName =
     (case extractBalanceSheetMetric_try report metricName of None \<Rightarrow> Fin 0 | Some v \<Rightarrow> v)"

text \<open>
  \<^verbatim>\<open>QuickBooksClient.getFinancialData\<close>: the three fetches under \<^verbatim>\<open>Promise.all\<close>
  (current-month P&L, last-month P&L, balance sheet), then the record. Three promises
  resolve to three values, so the last branch of the destructuring is never taken.
\<close>

definition QuickBooks_getFinancialData :: "nat list \<Rightarrow> http \<Rightarrow> http \<Rightarrow> http \<Rightarrow> error + FinancialData" where
  "QuickBooks_getFinancialData order h_currentPL h_lastMonthPL h_balanceSheet =
     (case promise_all order
             [getProfitAndLoss h_currentPL, getProfitAndLoss h_lastMonthPL,
              getBalanceSheet h_balanceSheet] of
        Inl e \<Rightarrow> Inl e
      | Inr fetched \<Rightarrow>
          (case fetched of
             [currentPL, lastMonthPL, balanceSheet'] \<Rightarrow>
               Inr \<lparr>cashBalance = extractBalanceSheetMetric balanceSheet' ''Cash and cash equivalents'',
                    monthlyRevenue = extractMetric lastMonthPL ''Total Income'',
                    monthlyExpenses = extractMetric lastMonthPL ''Total Expenses'',
                    profitLoss = lastMonthPL,
                    balanceSheet = balanceSheet'\<rparr>
           | _ \<Rightarrow> Inl TypeError))"

section \<open>The Xero client (lib/xero.ts)\<close>

text \<open>
  One step of the inner loop of \<^verbatim>\<open>extractMetric\<close>: the new \<^verbatim>\<open>total\<close> (\<open>tot\<close>) after
  \<^verbatim>\<open>if (row.Cells && row.Cells.length > 1) total += parseFloat(row.Cells[1].Value || '0')\<close>.
\<close>

definition add_row :: "jsnum \<Rightarrow> jsval \<Rightarrow> jsnum option" where
  "add_row tot row =
     do {
       cells \<leftarrow> get_prop row ''Cells'';
       if \<not> truthy cells then Some tot
       else do {
         len \<leftarrow> get_prop cells ''length'';
         more \<leftarrow> gt_num len (Fin 1);
         if more then
           do {
             c \<leftarrow> get_idx cells 1;
             v \<leftarrow> get_prop c ''Value'';
             n \<leftarrow> parse_float (or_else v (JStr ''0''));
             Some (js_add tot n)
           }
         else Some tot
       }
     }"

fun sum_rows :: "jsval list \<Rightarrow> jsnum \<Rightarrow> jsnum option" where
  "sum_rows [] tot = Some tot"
| "sum_rows (row # rows) tot = do { t \<leftarrow> add_row tot row; sum_rows rows t }"

text \<open>
  The condition \<^verbatim>\<open>section.Title === sectionName && section.Rows\<close> of the outer loop, as
  the branch taken.
\<close>

definition section_matches :: "jsval \<Rightarrow> string \<Rightarrow> bool option" where
  "section_matches section sectionName =
     do {
       t \<leftarrow> get_prop section ''Title'';
       if t \<noteq> JStr sectionName then Some False
       else do { rs \<leftarrow> get_prop section ''Rows''; Some (truthy rs) }
     }"

text \<open>The body of that \<^verbatim>\<open>if\<close>: the total of the section's rows, returned.\<close>

definition section_total :: "jsval \<Rightarrow> jsnum option" where
  "section_total section =
     do {
       rs \<leftarrow> get_prop section ''Rows'';
       rows \<leftarrow> iterate rs;
       sum_rows rows (Fin 0)
     }"

fun Xero_sections_loop :: "jsval list \<Rightarrow> string \<Rightarrow> jsnum option" where
  "Xero_sections_loop [] sectionName = Some (Fin 0)"
| "Xero_sections_loop (section # sections) sectionName =
     do {
       m \<leftarrow> section_matches section sectionName;
       if m then section_total section else Xero_sections_loop sections sectionName
     }"

definition Xero_extractMetric_try :: "jsval \<Rightarrow> string \<Rightarrow> jsnum option" where
  "Xero_extractMetric_try report sectionName =
     do {
       r \<leftarrow> get_prop report ''Reports'';
       let reports = or_else r (JArr []);
       len \<leftarrow> get_prop reports ''length'';
       if len = JNum (Fin 0) then Some (Fin 0)
       else do {
         first \<leftarrow> get_idx reports 0;
         rs \<leftarrow> get_prop first ''Rows'';
         rows \<leftarrow> iterate (or_else rs (JArr []));
         Xero_sections_loop rows sectionName
       }
     }"

definition Xero_extractMetric :: "jsval \<Rightarrow> string \<Rightarrow> jsnum" where
  "Xero_extractMetric report sectionName =
     (case Xero_extractMetric_try report sectionName of None \<Rightarrow> Fin 0 | Some v \<Rightarrow> v)"

text \<open>
  \<^verbatim>\<open>bankAccounts.Accounts?.reduce((sum, account) => sum +
  (parseFloat(account.BankAccountBalance) || 0), 0) || 0\<close>, outside any \<^verbatim>\<open>try\<close>
  (\<open>acc\<close> is the callback's \<^verbatim>\<open>sum\<close>). A value
  that is not an array has no callable \<^verbatim>\<open>reduce\<close>, and the call throws.
\<close>

fun reduce_balances :: "jsval list \<Rightarrow> jsnum \<Rightarrow> jsnum option" where
  "reduce_balances [] acc = Some acc"
| "reduce_balances (account # accounts) acc =
     do {
       b \<leftarrow> get_prop account ''BankAccountBalance'';
       n \<leftarrow> parse_float b;
       reduce_balances accounts (js_add acc (if num_truthy n then n else Fin 0))
     }"

definition totalCash :: "jsval \<Rightarrow> jsnum option" where
  "totalCash bankAccounts =
     do {
       accounts \<leftarrow> get_prop bankAccounts ''Accounts'';
       if nullish accounts then Some (Fin 0)
       else (case accounts of
               JArr xs \<Rightarrow> map_option (\<lambda>t. if num_truthy t then t else Fin 0)
                            (reduce_balances xs (Fin 0))
             | _ \<Rightarrow> None)
     }"

text \<open>
  \<^verbatim>\<open>XeroClient.getFinancialData\<close>: the three fetches under \<^verbatim>\<open>Promise.all\<close> (P&L,
  balance sheet, bank accounts), the cash total, then the record.
\<close>

definition Xero_getFinancialData :: "nat list \<Rightarrow> http \<Rightarrow> http \<Rightarrow> http \<Rightarrow> error + FinancialData" where
  "Xero_getFinancialData order h_profitLoss h_balanceSheet h_bankAccounts =
     (case promise_all order
             [getProfitAndLoss h_profitLoss, getBalanceSheet h_balanceSheet,
              getBankAccounts h_bankAccounts] of
        Inl e \<Rightarrow> Inl e
      | Inr fetched \<Rightarrow>
          (case fetched of
             [profitLoss', balanceSheet', bankAccounts] \<Rightarrow>
               (case totalCash bankAccounts of
                  None \<Rightarrow> Inl TypeError
                | Some cash \<Rightarrow>
                    Inr \<lparr>cashBalance = cash,
                         monthlyRevenue = Xero_extractMetric profitLoss' ''Revenue'',
                         monthlyExpenses = Xero_extractMetric profitLoss' ''Expenses'',
                         profitLoss = profitLoss',
                         balanceSheet = balanceSheet'\<rparr>)
           | _ \<Rightarrow> Inl TypeError))"

section \<open>The insights generator (lib/openai.ts)\<close>

text \<open>
  The chat completion the OpenAI client resolves to: \<^verbatim>\<open>choices[i].message.content\<close> is
  a string or null.
\<close>

datatype choice = Choice (content: "string option")

datatype completion = Completion (choices: "choice list")

text \<open>The \<^verbatim>\<open>data\<close> object of each insight, one constructor per object literal.\<close>

datatype insight_data =
    CashRunwayData jsnum jsnum jsnum jsnum jsnum
      \<comment> \<open>cashBalance, monthlyRevenue, monthlyExpenses, netBurn, runwayMonths\<close>
  | BurnRateData jsnum jsnum jsnum
      \<comment> \<open>monthlyRevenue, monthlyExpenses, netBurn\<close>
  | ProfitMarginData jsnum jsnum jsnum
      \<comment> \<open>monthlyRevenue, monthlyExpenses, profitMargin\<close>
  | HiringImpactData jsnum jsnum jsnum jsnum jsnum jsnum
      \<comment> \<open>currentRunway, newRunway, annualSalary, monthlyCost, currentMonthlyExpenses,
          newMonthlyExpenses\<close>
  | CustomData FinancialData
      \<comment> \<open>the metrics object itself\<close>

text \<open>
  The title is a fixed string, except for the hiring insight, whose title embeds
  \<^verbatim>\<open>annualSalary.toLocaleString()\<close>; the locale rendering is kept symbolic.
\<close>

datatype insight_title = Title string | HiringImpactTitle jsnum

record Insight =
  type :: string
  title :: insight_title
  text' :: string
  data :: insight_data

text \<open>
  \<^verbatim>\<open>response.choices[0].message.content\<close>: reading \<^verbatim>\<open>.message\<close> of the absent first
  element of an empty array throws a TypeError.
\<close>

definition first_content :: "completion \<Rightarrow> error + string option" where
  "first_content response =
     (case choices response of [] \<Rightarrow> Inl TypeError | c # _ \<Rightarrow> Inr (content c))"

text \<open>\<^verbatim>\<open>content || 'Unable to generate insight.'\<close>: null and the empty string are falsy.\<close>

definition or_fallback :: "string option \<Rightarrow> string" where
  "or_fallback c =
     (case c of None \<Rightarrow> ''Unable to generate insight.''
      | Some s \<Rightarrow> if s = [] then ''Unable to generate insight.'' else s)"

text \<open>
  Each generator computes its numbers, awaits the completion, and builds the insight. The
  outcome of the awaited call (\<open>Inl\<close> when the promise rejects) is an argument of the
  model; the prompt text passed to the call is not modelled. No generator has a
  \<^verbatim>\<open>try\<close> around the call.
\<close>

definition package :: "string \<Rightarrow> insight_title \<Rightarrow> insight_data \<Rightarrow> error + completion \<Rightarrow> error + Insight" where
  "package ty ti d llm =
     (case llm of
        Inl e \<Rightarrow> Inl e
      | Inr response \<Rightarrow>
          (case first_content response of
             Inl e \<Rightarrow> Inl e
           | Inr c \<Rightarrow> Inr \<lparr>type = ty, title = ti, text' = or_fallback c, data = d\<rparr>))"

definition generateCashRunway :: "FinancialData \<Rightarrow> error + completion \<Rightarrow> error + Insight" where
  "generateCashRunway metrics llm =
     (let netBurn = js_sub (monthlyExpenses metrics) (monthlyRevenue metrics);
          runwayMonths = (if js_gt netBurn (Fin 0)
                          then js_floor (js_div (cashBalance metrics) netBurn) else Fin 999)
      in package ''cash_runway'' (Title ''Cash Runway'')
           (CashRunwayData (cashBalance metrics) (monthlyRevenue metrics)
              (monthlyExpenses metrics) netBurn runwayMonths) llm)"

definition generateBurnRate :: "FinancialData \<Rightarrow> error + completion \<Rightarrow> error + Insight" where
  "generateBurnRate metrics llm =
     (let netBurn = js_sub (monthlyExpenses metrics) (monthlyRevenue metrics)
      in package ''burn_rate'' (Title ''Monthly Spending'')
           (BurnRateData (monthlyRevenue metrics) (monthlyExpenses metrics) netBurn) llm)"

definition generateProfitMargin :: "FinancialData \<Rightarrow> error + completion \<Rightarrow> error + Insight" where
  "generateProfitMargin metrics llm =
     (let profitMargin = (if js_gt (monthlyRevenue metrics) (Fin 0)
            then js_mul (js_div (js_sub (monthlyRevenue metrics) (monthlyExpenses metrics))
                           (monthlyRevenue metrics)) (Fin 100)
            else Fin 0)
      in package ''profit_margin'' (Title ''Profit Margin'')
           (ProfitMarginData (monthlyRevenue metrics) (monthlyExpenses metrics) profitMargin) llm)"

text \<open>
  \<^verbatim>\<open>generateHiringImpact\<close> reads three fields of \<^verbatim>\<open>metrics\<close> and assigns to none. The
  model returns, beside the promise's outcome, the metrics object as it is after the call.
\<close>

definition generateHiringImpact ::
  "FinancialData \<Rightarrow> jsnum \<Rightarrow> error + completion \<Rightarrow> (error + Insight) \<times> FinancialData" where
  "generateHiringImpact metrics annualSalary llm =
     (let monthlySalaryCost = js_div annualSalary (Fin 12);
          newMonthlyExpenses = js_add (monthlyExpenses metrics) monthlySalaryCost;
          newNetBurn = js_sub newMonthlyExpenses (monthlyRevenue metrics);
          currentNetBurn = js_sub (monthlyExpenses metrics) (monthlyRevenue metrics);
          currentRunway = (if js_gt currentNetBurn (Fin 0)
                           then js_floor (js_div (cashBalance metrics) currentNetBurn) else Fin 999);
          newRunway = (if js_gt newNetBurn (Fin 0)
                       then js_floor (js_div (cashBalance metrics) newNetBurn) else Fin 999)
      in (package ''hiring_impact'' (HiringImpactTitle annualSalary)
            (HiringImpactData currentRunway newRunway annualSalary monthlySalaryCost
               (monthlyExpenses metrics) newMonthlyExpenses) llm,
          metrics))"

definition generateCustomInsight :: "FinancialData \<Rightarrow> string \<Rightarrow> error + completion \<Rightarrow> error + Insight" where
  "generateCustomInsight metrics question llm =
     package ''custom'' (Title question) (CustomData metrics) llm"

text \<open>\<^verbatim>\<open>generateAllInsights\<close>: the three standard insights under \<^verbatim>\<open>Promise.all\<close>.\<close>

definition generateAllInsights ::
  "nat list \<Rightarrow> FinancialData \<Rightarrow> (string \<Rightarrow> error + completion) \<Rightarrow> error + Insight list" where
  "generateAllInsights order metrics llm =
     promise_all order
       [generateCashRunway metrics (llm ''cash_runway''),
        generateBurnRate metrics (llm ''burn_rate''),
        generateProfitMargin metrics (llm ''profit_margin'')]"

section \<open>The request handler (app/api/insights/generate/route.ts)\<close>

text \<open>
  The request body. \<^verbatim>\<open>params\<close> may be absent, and so may each of its fields; a field
  that is present has the type the generator declares for it (\<^verbatim>\<open>annualSalary: number\<close>,
  \<^verbatim>\<open>question: string\<close>).
\<close>

record params =
  annualSalary :: "jsnum option"
  question :: "string option"

record request_body =
  insightType :: string
  params :: "params option"

record connection =
  provider :: string

text \<open>
  What the handler's collaborators answer during one request: whether
  \<^verbatim>\<open>supabase.auth.getUser()\<close> gave a user without error, the outcome of
  \<^verbatim>\<open>request.json()\<close>, the connections query (\<open>None\<close> for an error or no data), the
  three report fetches of the provider with the order in which they settle, the outcome of
  the chat completion for each insight type, and the order in which the three insights of
  \<^verbatim>\<open>all\<close> settle.
\<close>

record env =
  authenticated :: bool
  body :: "error + request_body"
  connections :: "connection list option"
  fetch_order :: "nat list"
  fetch1 :: http
  fetch2 :: http
  fetch3 :: http
  llm :: "string \<Rightarrow> error + completion"
  insights_order :: "nat list"

datatype response_body = ErrorBody string | InsightBody Insight | InsightsBody "Insight list"

datatype response = JsonResponse nat response_body

text \<open>
  The calls the handler makes that a request can be observed by: the financial-data build
  of a provider, a generator of the insights class (which derives the numbers and calls
  the narrative generation), and an insert into the \<^verbatim>\<open>insights\<close> table.
\<close>

datatype event = GetFinancialData string | Generate string | InsertInsight string

text \<open>The \<^verbatim>\<open>catch\<close> of the handler.\<close>

definition failed :: response where
  "failed = JsonResponse 500 (ErrorBody ''Failed to generate insights'')"

text \<open>
  \<^verbatim>\<open>params?.annualSalary\<close> and \<^verbatim>\<open>params?.question\<close> when truthy (\<open>None\<close> when the
  tests \<^verbatim>\<open>!params?.annualSalary\<close> and \<^verbatim>\<open>!params?.question\<close> hold): an absent
  \<^verbatim>\<open>params\<close>, an absent field, the numbers 0 and NaN and the empty string are falsy.
\<close>

definition truthy_annualSalary :: "params option \<Rightarrow> jsnum option" where
  "truthy_annualSalary ps =
     (case ps of
        None \<Rightarrow> None
      | Some p \<Rightarrow> (case annualSalary p of
                     None \<Rightarrow> None
                   | Some n \<Rightarrow> if num_truthy n then Some n else None))"

definition truthy_question :: "params option \<Rightarrow> string option" where
  "truthy_question ps =
     (case ps of
        None \<Rightarrow> None
      | Some p \<Rightarrow> (case question p of
                     None \<Rightarrow> None
                   | Some q \<Rightarrow> if q \<noteq> [] then Some q else None))"

text \<open>
  After a case of the \<^verbatim>\<open>switch\<close> has awaited its generator: a rejection reaches the
  \<^verbatim>\<open>catch\<close>; otherwise the insight is inserted (an insert error is only logged) and
  returned.
\<close>

definition answer :: "string \<Rightarrow> error + Insight \<Rightarrow> response \<times> event list" where
  "answer kind r =
     (case r of
        Inl e \<Rightarrow> (failed, [Generate kind])
      | Inr insight \<Rightarrow>
          (JsonResponse 200 (InsightBody insight), [Generate kind, InsertInsight (type insight)]))"

text \<open>The \<^verbatim>\<open>switch (insightType)\<close> and what follows it.\<close>

definition generate_switch :: "env \<Rightarrow> request_body \<Rightarrow> FinancialData \<Rightarrow> response \<times> event list" where
  "generate_switch env b financialData =
     (if insightType b = ''cash_runway'' then
        answer ''cash_runway'' (generateCashRunway financialData (llm env ''cash_runway''))
      else if insightType b = ''burn_rate'' then
        answer ''burn_rate'' (generateBurnRate financialData (llm env ''burn_rate''))
      else if insightType b = ''profit_margin'' then
        answer ''profit_margin'' (generateProfitMargin financialData (llm env ''profit_margin''))
      else if insightType b = ''hiring_impact'' then
        (case truthy_annualSalary (params b) of
           None \<Rightarrow> (JsonResponse 400 (ErrorBody ''Annual salary required for hiring impact''), [])
         | Some salary \<Rightarrow>
             answer ''hiring_impact''
               (fst (generateHiringImpact financialData salary (llm env ''hiring_impact''))))
      else if insightType b = ''custom'' then
        (case truthy_question (params b) of
           None \<Rightarrow> (JsonResponse 400 (ErrorBody ''Question required for custom insight''), [])
         | Some q \<Rightarrow>
             answer ''custom'' (generateCustomInsight financialData q (llm env ''custom'')))
      else if insightType b = ''all'' then
        (case generateAllInsights (insights_order env) financialData (llm env) of
           Inl e \<Rightarrow> (failed, [Generate ''all''])
         | Inr allInsights \<Rightarrow>
             (JsonResponse 200 (InsightsBody allInsights),
              Generate ''all'' # map (\<lambda>ins. InsertInsight (type ins)) allInsights))
      else (JsonResponse 400 (ErrorBody ''Invalid insight type''), []))"

text \<open>
  The financial-data build of the first connection: \<open>None\<close> for a provider that is
  neither \<^verbatim>\<open>quickbooks\<close> nor \<^verbatim>\<open>xero\<close>.
\<close>

definition fetch_financial_data :: "env \<Rightarrow> string \<Rightarrow> (error + FinancialData) option" where
  "fetch_financial_data env prov =
     (if prov = ''quickbooks''
      then Some (QuickBooks_getFinancialData (fetch_order env) (fetch1 env) (fetch2 env) (fetch3 env))
      else if prov = ''xero''
      then Some (Xero_getFinancialData (fetch_order env) (fetch1 env) (fetch2 env) (fetch3 env))
      else None)"

text \<open>
  \<^verbatim>\<open>POST\<close>: authentication, the body, the connections, the financial data of the first
  connection, then the switch. Every rejection inside the \<^verbatim>\<open>try\<close> is answered by
  \<open>failed\<close>; the creation of the database client is taken to succeed, and a body that
  cannot be destructured counts as a body that cannot be read.
\<close>

definition POST :: "env \<Rightarrow> response \<times> event list" where
  "POST env =
     (if \<not> authenticated env then (JsonResponse 401 (ErrorBody ''Unauthorized''), [])
      else
        (case body env of
           Inl e \<Rightarrow> (failed, [])
         | Inr b \<Rightarrow>
             (case connections env of
                None \<Rightarrow> (JsonResponse 400 (ErrorBody ''No accounting software connected''), [])
              | Some [] \<Rightarrow> (JsonResponse 400 (ErrorBody ''No accounting software connected''), [])
              | Some (connection # _) \<Rightarrow>
                  (case fetch_financial_data env (provider connection) of
                     None \<Rightarrow> (JsonResponse 400 (ErrorBody ''Unsupported provider''), [])
                   | Some (Inl e) \<Rightarrow> (failed, [GetFinancialData (provider connection)])
                   | Some (Inr financialData) \<Rightarrow>
                       (case generate_switch env b financialData of
                          (res, evs) \<Rightarrow> (res, GetFinancialData (provider connection) # evs))))))"

section \<open>Notions used to state the properties\<close>

subsection \<open>The derivation rules as the specification words them\<close>

text \<open>Net burn is monthly expenses minus monthly revenue.\<close>

definition spec_netBurn :: "jsnum \<Rightarrow> jsnum \<Rightarrow> jsnum" where
  "spec_netBurn expenses revenue = js_sub expenses revenue"

text \<open>
  \<^verbatim>\<open>runwayMonths = netBurn > 0 ? floor(cashBalance / netBurn) : INFINITE_RUNWAY_SENTINEL\<close>,
  the sentinel being 999.
\<close>

definition spec_runwayMonths :: "jsnum \<Rightarrow> jsnum \<Rightarrow> jsnum" where
  "spec_runwayMonths cash burn =
     (if js_gt burn (Fin 0) then js_floor (js_div cash burn) else Fin 999)"


subsection \<open>Rows visited by the extractors\<close>





section \<open>Sample inputs\<close>

text \<open>A chat completion.\<close>

definition example_completion :: completion where
  "example_completion = Completion [Choice (Some ''You have ten months of cash left.'')]"

text \<open>
  A QuickBooks profit-and-loss row in the shape \<^verbatim>\<open>extractMetric\<close> reads (a
  \<^verbatim>\<open>Header\<close> with the label, \<^verbatim>\<open>ColData\<close> with the label and the amount), and a report
  in which the label \<^verbatim>\<open>Total Income\<close> occurs twice.
\<close>

definition pl_row :: "string \<Rightarrow> jsval \<Rightarrow> jsval" where
  "pl_row label amount =
     JObj [(''Header'', JObj [(''ColData'', JArr [JObj [(''value'', JStr label)]])]),
           (''ColData'', JArr [JObj [(''value'', JStr label)], JObj [(''value'', amount)]])]"

definition example_profit_and_loss :: jsval where
  "example_profit_and_loss =
     JObj [(''Rows'', JObj [(''Row'',
       JArr [pl_row ''Total Expenses'' (JStr ''20000.00''),
             pl_row ''Total Income'' (JStr ''15000.00''),
             pl_row ''Total Income'' (JStr ''1.00'')])])]"

text \<open>
  A QuickBooks balance sheet of two sections; the cash line occurs in both.
\<close>

definition bs_row :: "string \<Rightarrow> jsval \<Rightarrow> jsval" where
  "bs_row label amount =
     JObj [(''ColData'', JArr [JObj [(''value'', JStr label)], JObj [(''value'', amount)]])]"

definition example_balance_sheet :: jsval where
  "example_balance_sheet =
     JObj [(''Rows'', JObj [(''Row'',
       JArr [JObj [(''Rows'', JObj [(''Row'',
               JArr [bs_row ''Accounts receivable'' (JStr ''700.00''),
                     bs_row ''Cash and cash equivalents'' (JStr ''50000.00'')])])],
             JObj [(''Rows'', JObj [(''Row'',
               JArr [bs_row ''Cash and cash equivalents'' (JStr ''1.00'')])])]])])]"

text \<open>
  The metrics of the specification's runway example (cash 50000, expenses 20000, revenue
  15000), which are those of the two sample reports.
\<close>

definition example_metrics :: FinancialData where
  "example_metrics =
     \<lparr>cashBalance = Fin 50000, monthlyRevenue = Fin 15000, monthlyExpenses = Fin 20000,
      profitLoss = example_profit_and_loss, balanceSheet = example_balance_sheet\<rparr>"

text \<open>A profit-and-loss report whose income cell holds text that is not a number.\<close>

definition non_numeric_profit_and_loss :: jsval where
  "non_numeric_profit_and_loss =
     JObj [(''Rows'', JObj [(''Row'',
       JArr [pl_row ''Total Income'' (JStr ''n/a''),
             pl_row ''Total Expenses'' (JStr ''20000.00'')])])]"

text \<open>
  The Xero report of the specification's example: one section titled \<^verbatim>\<open>Revenue\<close> whose
  rows are valued 1000, 2000 and 500; and the same report with a second cell that is not a
  number.
\<close>

definition xero_row :: "string \<Rightarrow> jsval \<Rightarrow> jsval" where
  "xero_row name amount =
     JObj [(''Cells'', JArr [JObj [(''Value'', JStr name)], JObj [(''Value'', amount)]])]"

definition xero_report :: "jsval list \<Rightarrow> jsval" where
  "xero_report sections = JObj [(''Reports'', JArr [JObj [(''Rows'', JArr sections)]])]"

definition revenue_section :: "jsval list \<Rightarrow> jsval" where
  "revenue_section rows = JObj [(''Title'', JStr ''Revenue''), (''Rows'', JArr rows)]"

definition example_xero_rows :: "jsval list" where
  "example_xero_rows =
     [xero_row ''Sales'' (JStr ''1000''), xero_row ''Services'' (JStr ''2000''),
      xero_row ''Interest'' (JStr ''500'')]"

definition example_xero_report :: jsval where
  "example_xero_report =
     xero_report [JObj [(''Title'', JStr ''Header'')], revenue_section example_xero_rows]"

definition non_numeric_xero_report :: jsval where
  "non_numeric_xero_report =
     xero_report [revenue_section [xero_row ''Sales'' (JStr ''1000''), xero_row ''Other'' (JStr ''-'')]]"

text \<open>Answers of the environment: a report delivered, and a fetch refused.\<close>

definition delivered :: "jsval \<Rightarrow> http" where
  "delivered report = Response True ''OK'' (Inr report)"

definition refused :: http where
  "refused = Response False ''Unauthorized'' (Inr JNull)"

text \<open>
  A request by an authenticated user with a QuickBooks connection whose three reports are
  delivered; the body and the chat completion vary.
\<close>

definition example_env :: "request_body \<Rightarrow> (string \<Rightarrow> error + completion) \<Rightarrow> env" where
  "example_env b answers =
     \<lparr>authenticated = True, body = Inr b, connections = Some [\<lparr>provider = ''quickbooks''\<rparr>],
      fetch_order = [0, 1, 2],
      fetch1 = delivered example_profit_and_loss,
      fetch2 = delivered example_profit_and_loss,
      fetch3 = delivered example_balance_sheet,
      llm = answers, insights_order = [0, 1, 2]\<rparr>"

definition answering :: "string \<Rightarrow> error + completion" where
  "answering kind = Inr example_completion"


definition hiring_request :: "jsnum option \<Rightarrow> request_body" where
  "hiring_request salary =
     \<lparr>insightType = ''hiring_impact'', params = Some \<lparr>annualSalary = salary, question = None\<rparr>\<rparr>"

definition custom_request :: "string option \<Rightarrow> request_body" where
  "custom_request q =
     \<lparr>insightType = ''custom'', params = Some \<lparr>annualSalary = None, question = q\<rparr>\<rparr>"


section \<open>Properties of the derivation rules\<close>

lemmas js_read =
  get_prop_def get_idx_def opt_prop_def opt_idx_def nullish_def or_else_def

lemmas js_parse =
  parse_float_def parse_float_str_def str_decimal_def unsigned_decimal_def exponent_part_def
  is_ws_def is_digit_def digits_val_def digit_val_def pow10_def

lemma package_ok:
  "first_content response = Inr c \<Longrightarrow>
   package ty ti d (Inr response) = Inr \<lparr>type = ty, title = ti, text' = or_fallback c, data = d\<rparr>"
  by (simp add: package_def)


lemma first_content_example:
  "first_content example_completion = Inr (Some ''You have ten months of cash left.'')"
  by (simp add: first_content_def example_completion_def)





text \<open>
  C9. The hiring-impact derivation takes monthly cost = annualSalary / 12, adds it to the
  expenses and recomputes net burn and runway by the rule of C1. Two calls in a row with
  the same metrics and salary, whatever the two completions say, carry the same data, and
  the metrics object after each call is the one that was passed.
\<close>

theorem hiring_impact_pure:
  assumes "first_content response1 = Inr c1" and "first_content response2 = Inr c2"
  shows "(case generateHiringImpact m salary (Inr response1) of
            (r1, m1) \<Rightarrow>
              (case generateHiringImpact m1 salary (Inr response2) of
                 (r2, m2) \<Rightarrow>
                   m1 = m \<and> m2 = m
                 \<and> (\<exists>i1 i2. r1 = Inr i1 \<and> r2 = Inr i2 \<and> data i1 = data i2
                     \<and> data i1 = HiringImpactData
                          (spec_runwayMonths (cashBalance m)
                             (spec_netBurn (monthlyExpenses m) (monthlyRevenue m)))
                          (spec_runwayMonths (cashBalance m)
                             (spec_netBurn (js_add (monthlyExpenses m) (js_div salary (Fin 12)))
                                (monthlyRevenue m)))
                          salary (js_div salary (Fin 12)) (monthlyExpenses m)
                          (js_add (monthlyExpenses m) (js_div salary (Fin 12))))))"
  using assms
  by (simp add: generateHiringImpact_def package_ok Let_def spec_netBurn_def spec_runwayMonths_def)

theorem hiring_impact_pure_witness:
  "snd (generateHiringImpact example_metrics (Fin 60000) (Inr example_completion)) = example_metrics
   \<and> (\<exists>i. fst (generateHiringImpact example_metrics (Fin 60000) (Inr example_completion)) = Inr i
        \<and> data i = HiringImpactData (Fin 10) (Fin 5) (Fin 60000) (Fin 5000) (Fin 20000) (Fin 25000))"
  using hiring_impact_pure [OF first_content_example first_content_example,
      of example_metrics "Fin 60000"]
  by (auto simp: example_metrics_def spec_netBurn_def spec_runwayMonths_def split: prod.splits)



section \<open>Properties of the QuickBooks extractors\<close>









text \<open>The two conditions, spelled out in reads of the row.\<close>

lemma flat_row_matches_iff:
  "flat_row_matches row m = Some True \<longleftrightarrow>
     \<not> nullish row \<and> truthy (prop_of row ''ColData'')
     \<and> opt_prop (opt_idx (opt_prop (prop_of row ''Header'') ''ColData'') 0) ''value'' = JStr m"
  by (auto simp: flat_row_matches_def get_prop_def)

lemma nested_row_matches_iff:
  "nested_row_matches row m = Some True \<longleftrightarrow>
     \<not> nullish row \<and> opt_prop (opt_idx (prop_of row ''ColData'') 0) ''value'' = JStr m"
  by (auto simp: nested_row_matches_def get_prop_def)

lemma row_read_without_error:
  "(\<exists>b. flat_row_matches row m = Some b) \<longleftrightarrow> \<not> nullish row"
  "(\<exists>b. nested_row_matches row m = Some b) \<longleftrightarrow> \<not> nullish row"
  by (auto simp: flat_row_matches_def nested_row_matches_def get_prop_def)










section \<open>Properties of the Xero extractor\<close>















section \<open>Values that are not numbers\<close>

lemma example_income: "extractMetric example_profit_and_loss ''Total Income'' = Fin 15000"
  by (simp add: extractMetric_def extractMetric_try_def report_rows_def
      example_profit_and_loss_def pl_row_def flat_row_matches_def numeric_cell_def js_read js_parse)

lemma example_expenses: "extractMetric example_profit_and_loss ''Total Expenses'' = Fin 20000"
  by (simp add: extractMetric_def extractMetric_try_def report_rows_def
      example_profit_and_loss_def pl_row_def flat_row_matches_def numeric_cell_def js_read js_parse)

lemma example_cash:
  "extractBalanceSheetMetric example_balance_sheet ''Cash and cash equivalents'' = Fin 50000"
  by (simp add: extractBalanceSheetMetric_def extractBalanceSheetMetric_try_def report_rows_def
      example_balance_sheet_def bs_row_def nested_row_matches_def numeric_cell_def js_read js_parse)

lemma first_rejection_none:
  "\<forall>p \<in> set ps. \<exists>v. p = Inr v \<Longrightarrow> first_rejection order ps = None"
proof (induction order)
  case Nil
  then show ?case by simp
next
  case (Cons i order)
  show ?case
  proof (cases "i < length ps")
    case True
    then have "ps ! i \<in> set ps" by simp
    with Cons.prems obtain v where "ps ! i = Inr v" by blast
    with True Cons show ?thesis by simp
  next
    case False
    with Cons show ?thesis by simp
  qed
qed

lemma promise_all_resolved: "promise_all order [Inr a, Inr b, Inr c] = Inr [a, b, c]"
  by (simp add: promise_all_def first_rejection_none)

lemma fetch_delivered: "fetch_report what (delivered report) = Inr report"
  by (simp add: fetch_report_def delivered_def)

lemma example_financial_data:
  "fetch_financial_data (example_env b a) ''quickbooks'' = Some (Inr example_metrics)"
  by (simp add: fetch_financial_data_def example_env_def QuickBooks_getFinancialData_def
      getProfitAndLoss_def getBalanceSheet_def fetch_delivered promise_all_resolved
      example_income example_expenses example_cash example_metrics_def)

text \<open>
  The cash total of the Xero client guards the result of \<^verbatim>\<open>parseFloat\<close> with
  \<^verbatim>\<open>|| 0\<close>, so a balance that is not a number counts as 0; but the total is computed
  outside any \<^verbatim>\<open>try\<close>, so a \<^verbatim>\<open>null\<close> account fails the whole build.
\<close>

lemma bank_balance_guarded:
  "totalCash (JObj [(''Accounts'', JArr [JObj [(''BankAccountBalance'', JStr ''n/a'')],
                                            JObj [(''BankAccountBalance'', JStr ''250.50'')]])]) = Some (Fin (501 / 2))"
  by (simp add: totalCash_def js_read js_parse num_truthy_def)

lemma bank_accounts_unguarded:
  "Xero_getFinancialData [0, 1, 2] (delivered example_xero_report) (delivered JNull)
     (delivered (JObj [(''Accounts'', JArr [JNull])])) = Inl TypeError"
  by (simp add: Xero_getFinancialData_def getProfitAndLoss_def getBalanceSheet_def
      getBankAccounts_def fetch_delivered promise_all_resolved totalCash_def js_read)

text \<open>
  C5. A matched cell whose text is not a number is not absorbed into 0: in the sample
  QuickBooks report whose income cell holds \<^verbatim>\<open>n/a\<close>, \<^verbatim>\<open>extractMetric\<close> returns NaN
  for Total Income (while the sibling metric Total Expenses is still extracted), and the
  Xero \<^verbatim>\<open>extractMetric\<close> returns NaN for a section with one such row.
\<close>

theorem non_numeric_cell_yields_NaN:
  "extractMetric non_numeric_profit_and_loss ''Total Income'' = NaN
 \<and> extractMetric non_numeric_profit_and_loss ''Total Expenses'' = Fin 20000
 \<and> Xero_extractMetric non_numeric_xero_report ''Revenue'' = NaN"
  by (simp add: extractMetric_def extractMetric_try_def report_rows_def
      non_numeric_profit_and_loss_def pl_row_def flat_row_matches_def numeric_cell_def
      Xero_extractMetric_def Xero_extractMetric_try_def non_numeric_xero_report_def
      xero_report_def revenue_section_def section_matches_def section_total_def add_row_def
      xero_row_def gt_num_def to_number_def js_read js_parse)

section \<open>Properties of the financial-data build\<close>

lemma first_rejection_mem:
  "first_rejection order ps = Some e \<Longrightarrow> Inl e \<in> set ps"
proof (induction order)
  case Nil
  then show ?case by simp
next
  case (Cons i order)
  then show ?case
    by (auto split: if_splits sum.splits simp: in_set_conv_nth)
qed

lemma first_rejection_found:
  "i \<in> set order \<Longrightarrow> i < length ps \<Longrightarrow> ps ! i = Inl e \<Longrightarrow> \<exists>e'. first_rejection order ps = Some e'"
  by (induction order) (auto split: sum.splits)

lemma promise_all_rejects:
  assumes "Inl e \<in> set ps"
  shows "\<exists>e'. promise_all order ps = Inl e' \<and> Inl e' \<in> set ps"
proof -
  from assms obtain i where i: "i < length ps" "ps ! i = Inl e"
    by (auto simp: in_set_conv_nth)
  then have "i \<in> set (order @ [0..<length ps])" by simp
  from first_rejection_found [OF this i]
  obtain e' where e': "first_rejection (order @ [0..<length ps]) ps = Some e'" by blast
  with first_rejection_mem [OF e'] show ?thesis
    by (simp add: promise_all_def)
qed

lemma fetch_refused:
  "fetch_report what refused = Inl (Error (''Failed to fetch '' @ what @ '': Unauthorized''))"
  by (simp add: fetch_report_def refused_def)

text \<open>
  C6. If one of the three fetches of a build fails, \<^verbatim>\<open>getFinancialData\<close> of either
  client fails, with the error of a fetch that failed (of the one that failed, when only
  one did): its result is an error and never a record.
\<close>

theorem build_fails_whole:
  "(Inl e \<in> set [getProfitAndLoss ha, getProfitAndLoss hb, getBalanceSheet hc] \<longrightarrow>
      (\<exists>e'. QuickBooks_getFinancialData order ha hb hc = Inl e'
           \<and> Inl e' \<in> set [getProfitAndLoss ha, getProfitAndLoss hb, getBalanceSheet hc]))
 \<and> (Inl x \<in> set [getProfitAndLoss xa, getBalanceSheet xb, getBankAccounts xc] \<longrightarrow>
      (\<exists>x'. Xero_getFinancialData xorder xa xb xc = Inl x'
           \<and> Inl x' \<in> set [getProfitAndLoss xa, getBalanceSheet xb, getBankAccounts xc]))"
proof (intro conjI impI)
  assume a: "Inl e \<in> set [getProfitAndLoss ha, getProfitAndLoss hb, getBalanceSheet hc]"
  from promise_all_rejects [OF a, of order]
  show "\<exists>e'. QuickBooks_getFinancialData order ha hb hc = Inl e'
           \<and> Inl e' \<in> set [getProfitAndLoss ha, getProfitAndLoss hb, getBalanceSheet hc]"
    by (auto simp: QuickBooks_getFinancialData_def)
next
  assume a: "Inl x \<in> set [getProfitAndLoss xa, getBalanceSheet xb, getBankAccounts xc]"
  from promise_all_rejects [OF a, of xorder]
  show "\<exists>x'. Xero_getFinancialData xorder xa xb xc = Inl x'
           \<and> Inl x' \<in> set [getProfitAndLoss xa, getBalanceSheet xb, getBankAccounts xc]"
    by (auto simp: Xero_getFinancialData_def)
qed

theorem build_fails_whole_witness:
  "QuickBooks_getFinancialData [0, 1, 2] (delivered example_profit_and_loss)
     (delivered example_profit_and_loss) refused
     = Inl (Error ''Failed to fetch balance sheet: Unauthorized'')
 \<and> Xero_getFinancialData [2, 1, 0] (delivered example_xero_report) refused
     (delivered (JObj [(''Accounts'', JArr [])]))
     = Inl (Error ''Failed to fetch balance sheet: Unauthorized'')"
  using build_fails_whole [where e = "Error ''Failed to fetch balance sheet: Unauthorized''"
      and ha = "delivered example_profit_and_loss" and hb = "delivered example_profit_and_loss"
      and hc = refused and order = "[0, 1, 2]"
      and x = "Error ''Failed to fetch balance sheet: Unauthorized''"
      and xa = "delivered example_xero_report" and xb = refused
      and xc = "delivered (JObj [(''Accounts'', JArr [])])" and xorder = "[2, 1, 0]"]
  by (auto simp: getProfitAndLoss_def getBalanceSheet_def getBankAccounts_def fetch_delivered
      fetch_refused)

section \<open>Properties of the request handler\<close>

lemma example_env_fields:
  "authenticated (example_env b a) = True"
  "body (example_env b a) = Inr b"
  "connections (example_env b a) = Some [\<lparr>provider = ''quickbooks''\<rparr>]"
  "llm (example_env b a) = a"
  by (simp_all add: example_env_def)

lemma POST_example:
  "POST (example_env b a) =
     (case generate_switch (example_env b a) b example_metrics of
        (res, evs) \<Rightarrow> (res, GetFinancialData ''quickbooks'' # evs))"
  by (simp add: POST_def example_env_fields example_financial_data)




text \<open>
  C8, as stated, fails: an annual salary that is present in the request but is 0 is
  answered like an absent one; and when the salary is absent but a report fetch fails, the
  answer is the general failure of status 500, not the parameter error.
\<close>

theorem zero_salary_counterexample:
  "params (hiring_request (Some (Fin 0))) = Some \<lparr>annualSalary = Some (Fin 0), question = None\<rparr>
 \<and> POST (example_env (hiring_request (Some (Fin 0))) answering) =
      (JsonResponse 400 (ErrorBody ''Annual salary required for hiring impact''),
       [GetFinancialData ''quickbooks''])
 \<and> POST ((example_env (hiring_request None) answering)\<lparr>fetch3 := refused\<rparr>) =
      (JsonResponse 500 (ErrorBody ''Failed to generate insights''),
       [GetFinancialData ''quickbooks''])"
proof -
  have "fetch_financial_data ((example_env (hiring_request None) answering)\<lparr>fetch3 := refused\<rparr>)
          ''quickbooks'' = Some (Inl (Error ''Failed to fetch balance sheet: Unauthorized''))"
    by (simp add: fetch_financial_data_def example_env_def QuickBooks_getFinancialData_def
        getProfitAndLoss_def getBalanceSheet_def fetch_delivered fetch_refused promise_all_def)
  then have "POST ((example_env (hiring_request None) answering)\<lparr>fetch3 := refused\<rparr>) =
      (JsonResponse 500 (ErrorBody ''Failed to generate insights''),
       [GetFinancialData ''quickbooks''])"
    by (simp add: POST_def example_env_def failed_def)
  then show ?thesis
    by (simp add: POST_example generate_switch_def hiring_request_def truthy_annualSalary_def
        num_truthy_def)
qed

text \<open>
  C8, amended. For an authenticated caller with a connection whose financial-data build
  succeeded: a hiring_impact request whose annualSalary is absent, 0 or NaN, and a custom
  request whose question is absent or empty, are answered with status 400 and their own
  message, and no generator has been called (the only call made is the financial-data
  build); with a truthy parameter the generator of the kind is called and its outcome
  answered as for the other kinds.
\<close>

theorem parameter_validation:
  assumes "authenticated env" and "body env = Inr b" and "connections env = Some (cn # cns)"
    and "fetch_financial_data env (provider cn) = Some (Inr fd)"
  shows "(insightType b = ''hiring_impact'' \<and> truthy_annualSalary (params b) = None \<longrightarrow>
            POST env = (JsonResponse 400 (ErrorBody ''Annual salary required for hiring impact''),
                        [GetFinancialData (provider cn)]))
       \<and> (insightType b = ''custom'' \<and> truthy_question (params b) = None \<longrightarrow>
            POST env = (JsonResponse 400 (ErrorBody ''Question required for custom insight''),
                        [GetFinancialData (provider cn)]))
       \<and> (insightType b = ''hiring_impact'' \<and> truthy_annualSalary (params b) = Some salary \<longrightarrow>
            POST env =
              (case answer ''hiring_impact''
                      (fst (generateHiringImpact fd salary (llm env ''hiring_impact''))) of
                 (res, evs) \<Rightarrow> (res, GetFinancialData (provider cn) # evs))
          \<and> snd (POST env) ! 1 = Generate ''hiring_impact'')
       \<and> (insightType b = ''custom'' \<and> truthy_question (params b) = Some q \<longrightarrow>
            POST env =
              (case answer ''custom'' (generateCustomInsight fd q (llm env ''custom'')) of
                 (res, evs) \<Rightarrow> (res, GetFinancialData (provider cn) # evs))
          \<and> snd (POST env) ! 1 = Generate ''custom'')
       \<and> (truthy_annualSalary ps = None \<longleftrightarrow>
            ps = None \<or> (\<exists>p. ps = Some p \<and> (annualSalary p = None
               \<or> annualSalary p = Some (Fin 0) \<or> annualSalary p = Some NaN)))
       \<and> (truthy_question ps = None \<longleftrightarrow>
            ps = None \<or> (\<exists>p. ps = Some p \<and> (question p = None \<or> question p = Some [])))"
proof -
  have post: "POST env = (case generate_switch env b fd of
                (res, evs) \<Rightarrow> (res, GetFinancialData (provider cn) # evs))"
    using assms by (simp add: POST_def)
  have 1: "truthy_annualSalary ps = None \<longleftrightarrow>
            ps = None \<or> (\<exists>p. ps = Some p \<and> (annualSalary p = None
               \<or> annualSalary p = Some (Fin 0) \<or> annualSalary p = Some NaN))"
    by (auto simp: truthy_annualSalary_def num_truthy_def split: option.splits)
  have 2: "truthy_question ps = None \<longleftrightarrow>
            ps = None \<or> (\<exists>p. ps = Some p \<and> (question p = None \<or> question p = Some []))"
    by (auto simp: truthy_question_def split: option.splits)
  have 3: "snd (case answer k r of (res, evs) \<Rightarrow> (res, ev # evs)) ! 1 = Generate k" for k r ev
    by (simp add: answer_def split: sum.splits)
  show ?thesis
    unfolding post using 1 2 3
    by (simp add: generate_switch_def)
qed

theorem parameter_validation_witness:
  "POST (example_env (hiring_request None) answering) =
      (JsonResponse 400 (ErrorBody ''Annual salary required for hiring impact''),
       [GetFinancialData ''quickbooks''])
 \<and> POST (example_env (custom_request (Some [])) answering) =
      (JsonResponse 400 (ErrorBody ''Question required for custom insight''),
       [GetFinancialData ''quickbooks''])
 \<and> snd (POST (example_env (hiring_request (Some (Fin 60000))) answering)) =
      [GetFinancialData ''quickbooks'', Generate ''hiring_impact'', InsertInsight ''hiring_impact'']
 \<and> snd (POST (example_env (custom_request (Some ''Can I afford a new van?'')) answering)) =
      [GetFinancialData ''quickbooks'', Generate ''custom'', InsertInsight ''custom'']"
proof -
  have c: "connections (example_env b a) = Some (\<lparr>provider = ''quickbooks''\<rparr> # [])" for b a
    by (simp add: example_env_fields)
  have f: "fetch_financial_data (example_env b a) (provider \<lparr>provider = ''quickbooks''\<rparr>)
             = Some (Inr example_metrics)" for b a
    by (simp add: example_financial_data)
  note v = parameter_validation [OF _ _ c f]
  have pk: "package ty ti d (answering k) =
              Inr \<lparr>type = ty, title = ti, text' = ''You have ten months of cash left.'', data = d\<rparr>"
    for ty ti d k
    by (simp add: answering_def package_ok [OF first_content_example] or_fallback_def)
  from v [of "hiring_request None" answering "hiring_request None" "Fin 1" "''q''" None]
  have 1: "POST (example_env (hiring_request None) answering) =
      (JsonResponse 400 (ErrorBody ''Annual salary required for hiring impact''),
       [GetFinancialData ''quickbooks''])"
    by (simp add: example_env_fields hiring_request_def truthy_annualSalary_def)
  from v [of "custom_request (Some [])" answering "custom_request (Some [])" "Fin 1" "''q''" None]
  have 2: "POST (example_env (custom_request (Some [])) answering) =
      (JsonResponse 400 (ErrorBody ''Question required for custom insight''),
       [GetFinancialData ''quickbooks''])"
    by (simp add: example_env_fields custom_request_def truthy_question_def)
  from v [of "hiring_request (Some (Fin 60000))" answering "hiring_request (Some (Fin 60000))"
        "Fin 60000" "''q''" None]
  have 3: "snd (POST (example_env (hiring_request (Some (Fin 60000))) answering)) =
      [GetFinancialData ''quickbooks'', Generate ''hiring_impact'', InsertInsight ''hiring_impact'']"
    by (simp add: example_env_fields hiring_request_def truthy_annualSalary_def num_truthy_def
        generateHiringImpact_def Let_def pk answer_def)
  from v [of "custom_request (Some ''Can I afford a new van?'')" answering
        "custom_request (Some ''Can I afford a new van?'')" "Fin 1" "''Can I afford a new van?''" None]
  have 4: "snd (POST (example_env (custom_request (Some ''Can I afford a new van?'')) answering)) =
      [GetFinancialData ''quickbooks'', Generate ''custom'', InsertInsight ''custom'']"
    by (simp add: example_env_fields custom_request_def truthy_question_def
        generateCustomInsight_def pk answer_def)
  from 1 2 3 4 show ?thesis by simp
qed

end
